theory Spec2Isabelle
  imports Complex_Main "HOL-Library.Char_ord" "HOL-Library.List_Lexorder" "HOL-Library.AList"
begin

section \<open>Data model of \<open>bitcoin_quantum_simulator.py\<close>\<close>

text \<open>
  The embedding follows the Python source class by class.

  \<^item> Python \<open>float\<close> values (amounts, fees, times, probabilities) are modelled as
    \<^typ>\<open>real\<close>: rounding, infinities and NaN are outside the model.
  \<^item> Python \<open>int\<close> values are \<^typ>\<open>int\<close>.
  \<^item> \<open>UTXO\<close>, \<open>Transaction\<close> and \<open>QuantumAttacker\<close> objects are mutated in place and
    shared by reference (a transaction holds its input UTXOs by reference, the mempool
    holds transactions by reference), so they live in object stores indexed by a
    reference (\<^typ>\<open>nat\<close>); every reference denotes an object, as in Python.
  \<^item> \<open>print\<close>, \<open>explain\<close> and \<open>time.sleep\<close> have no effect on the program state and are
    left out, except where evaluating their arguments can raise.
  \<^item> \<open>hashlib.sha256(...).hexdigest()\<close>, \<open>str\<close> of a float, \<open>random.random()\<close>,
    \<open>random.randint\<close> and \<open>time.time()\<close> are supplied by the outside world: they are
    fields of the state, read in call order.
\<close>

datatype AddressType = P2PKH | P2WPKH | P2TR | P2SH_MULTISIG_2OF3 | P2WSH_MULTISIG_3OF5

fun AddressType_value :: "AddressType \<Rightarrow> string" where
  "AddressType_value P2PKH = ''P2PKH (Legacy)''"
| "AddressType_value P2WPKH = ''P2WPKH (SegWit)''"
| "AddressType_value P2TR = ''P2TR (Taproot)''"
| "AddressType_value P2SH_MULTISIG_2OF3 = ''P2SH Multisig 2-of-3''"
| "AddressType_value P2WSH_MULTISIG_3OF5 = ''P2WSH Multisig 3-of-5''"

datatype TxStatus = CREATED | BROADCAST | ATTACKED | CONFIRMED | STOLEN | RBF_REPLACED

datatype py_error = ZeroDivisionError | AttributeError | IndexError

record QuantumComputer =
  name :: string
  qubits :: int
  error_rate :: real
  key_derivation_time :: real
  success_probability :: real

record UTXO =
  txid :: string
  vout :: int
  address :: string
  address_type :: AddressType
  amount :: real
  privkey :: string
  pubkey :: string
  pubkey_hash :: string
  script_pubkey :: string
  spent :: bool
  pubkey_exposed :: bool
  exposure_count :: int
  created_block :: int

text \<open>
  An element of \<open>Transaction.outputs\<close>: a dict with the keys \<open>address\<close> and \<open>amount\<close>
  (a dict without one of them is not an input of the model).
\<close>

record TxOutput =
  address :: string
  amount :: real

text \<open>
  An element of the \<open>attack_details\<close> list that \<open>_execute_quantum_attack\<close> attaches to a
  transaction; \<open>detail_value\<close> is the dict key \<open>'value'\<close>.
\<close>

record AttackDetail =
  attacker :: string
  competing_txid :: string
  attack_fee :: real
  destination :: string
  detail_value :: real

text \<open>
  \<open>inputs\<close> holds references to UTXO objects. \<open>attack_details\<close> is an attribute that the
  dataclass does not declare: \<open>None\<close> means that the attribute is absent
  (\<open>hasattr\<close> is false).
\<close>

record Transaction =
  txid :: string
  inputs :: "nat list"
  outputs :: "TxOutput list"
  fee :: real
  pubkeys_exposed :: "string list"
  signatures :: "string list"
  status :: TxStatus
  broadcast_time :: real
  confirmation_time :: "real option"
  rbf_enabled :: bool
  locktime :: int
  witness_data :: "string option"
  competing_txs :: "string list"
  attack_details :: "AttackDetail list option"

record QuantumAttacker =
  name :: string
  quantum_computer :: QuantumComputer
  btc_balance :: real
  successful_attacks :: int
  failed_attacks :: int
  total_stolen :: real
  attack_strategy :: string

text \<open>
  The fields of a \<open>BitcoinNetwork\<close> object. \<open>mempool\<close> is a dict from transaction id to
  transaction: an association list in insertion order, holding references.
  \<open>utxo_set\<close> and \<open>quantum_attackers\<close> are lists of references.
\<close>

record BitcoinNetwork =
  current_block :: int
  current_time :: real
  block_time_avg :: real
  mempool :: "(string \<times> nat) list"
  blockchain :: "(string \<times> string) list list"
  utxo_set :: "nat list"
  quantum_attackers :: "nat list"
  network_hash_rate :: int
  difficulty_adjustment :: real

text \<open>
  The whole state: the network object, the three object stores with their allocation
  counters, and the outside world. The \<open>k\<close>-th call of the random generator returns
  \<open>random_source k\<close> when it is \<open>random.random()\<close> and a number drawn from
  \<open>randint_source k\<close> when it is \<open>random.randint\<close>; the \<open>k\<close>-th call of \<open>time.time()\<close>
  returns \<open>time_source k\<close>.
\<close>

record world = BitcoinNetwork +
  utxo_obj :: "nat \<Rightarrow> UTXO"
  next_utxo :: nat
  tx_obj :: "nat \<Rightarrow> Transaction"
  next_tx :: nat
  attacker_obj :: "nat \<Rightarrow> QuantumAttacker"
  sha256_hexdigest :: "string \<Rightarrow> string"
  float_str :: "real \<Rightarrow> string"
  random_source :: "nat \<Rightarrow> real"
  randint_source :: "nat \<Rightarrow> nat"
  random_calls :: nat
  time_source :: "nat \<Rightarrow> real"
  time_calls :: nat

section \<open>Strings\<close>

text \<open>\<open>str(n)\<close> for a Python int.\<close>

fun digits :: "nat \<Rightarrow> string" where
  "digits n =
     (if n < 10 then [''0123456789'' ! n]
      else digits (n div 10) @ [''0123456789'' ! (n mod 10)])"

definition str_int :: "int \<Rightarrow> string" where
  "str_int i = (if i < 0 then ''-'' @ digits (nat (- i)) else digits (nat i))"

text \<open>\<open>sub in s\<close> for Python strings.\<close>

fun str_contains :: "string \<Rightarrow> string \<Rightarrow> bool" where
  "str_contains sub [] = (sub = [])"
| "str_contains sub (c # cs) = (take (length sub) (c # cs) = sub \<or> str_contains sub cs)"

section \<open>QuantumComputer and QuantumAttacker\<close>

definition can_break_secp256k1 :: "QuantumComputer \<Rightarrow> bool" where
  "can_break_secp256k1 qc \<longleftrightarrow> 2000 \<le> qubits qc \<and> error_rate qc < 0.001"

text \<open>\<open>sum(inp.amount for inp in tx.inputs)\<close>, over the UTXO objects as they are now.\<close>

definition sum_input_amounts :: "world \<Rightarrow> nat list \<Rightarrow> real" where
  "sum_input_amounts s ins = sum_list (map (\<lambda>u. UTXO.amount (utxo_obj s u)) ins)"

text \<open>
  \<open>should_attack\<close>: the OPPORTUNISTIC branch calls \<open>random.random()\<close> only when the
  total value exceeds 1.0 (Python's \<open>and\<close> does not evaluate its right operand otherwise).
\<close>

definition should_attack :: "QuantumAttacker \<Rightarrow> Transaction \<Rightarrow> world \<Rightarrow> bool \<times> world" where
  "should_attack a tx s =
     (let total_value = sum_input_amounts s (inputs tx) in
      if attack_strategy a = ''AGGRESSIVE'' then (total_value > 0.1, s)
      else if attack_strategy a = ''SELECTIVE'' then (total_value > 5.0, s)
      else if total_value > 1.0
        then (random_source s (random_calls s) > 0.5,
              s\<lparr>random_calls := random_calls s + 1\<rparr>)
        else (False, s))"

text \<open>
  \<open>estimate_attack_time\<close>: the two multiplications are exact here, where Python rounds
  each product to a float.
\<close>

definition estimate_attack_time :: "QuantumAttacker \<Rightarrow> int \<Rightarrow> real" where
  "estimate_attack_time a num_keys =
     (let base_time = key_derivation_time (quantum_computer a)
      in base_time * of_int num_keys * 0.7)"

section \<open>BitcoinNetwork: creating outputs\<close>

text \<open>\<open>BitcoinNetwork.__init__\<close>; the object stores and the outside world are given.\<close>

definition init_network :: "world \<Rightarrow> world" where
  "init_network w =
     w\<lparr>current_block := 850000,
       current_time := time_source w (time_calls w),
       block_time_avg := 600,
       mempool := [],
       blockchain := [],
       utxo_set := [],
       quantum_attackers := [],
       network_hash_rate := 600000000,
       difficulty_adjustment := 1.0,
       time_calls := time_calls w + 1\<rparr>"

text \<open>The address and the script that \<open>create_utxo\<close> derives from the address type.\<close>

definition address_and_script :: "AddressType \<Rightarrow> string \<Rightarrow> int \<Rightarrow> string \<times> string" where
  "address_and_script addr_type pkh num_signers =
     (if addr_type = P2PKH then
        (''1'' @ take 33 pkh,
         ''OP_DUP OP_HASH160 '' @ take 40 pkh @ '' OP_EQUALVERIFY OP_CHECKSIG'')
      else if addr_type = P2WPKH then
        (''bc1q'' @ take 38 pkh, ''OP_0 '' @ take 40 pkh)
      else if addr_type = P2TR then
        (''bc1p'' @ take 58 pkh, ''OP_1 '' @ take 64 pkh)
      else if str_contains ''MULTISIG'' (AddressType_value addr_type) then
        (''3'' @ take 33 pkh, ''OP_'' @ str_int num_signers @ '' ... OP_CHECKMULTISIG'')
      else
        (''1'' @ take 33 pkh,
         ''OP_DUP OP_HASH160 '' @ take 40 pkh @ '' OP_EQUALVERIFY OP_CHECKSIG''))"

definition create_utxo :: "AddressType \<Rightarrow> real \<Rightarrow> int \<Rightarrow> world \<Rightarrow> nat \<times> world" where
  "create_utxo addr_type amt num_signers s =
     (let txid' = sha256_hexdigest s (float_str s (random_source s (random_calls s)));
          privkey' = sha256_hexdigest s (float_str s (random_source s (random_calls s + 1)));
          pubkey' = sha256_hexdigest s privkey';
          pubkey_hash' = take 40 (sha256_hexdigest s pubkey');
          (address', script) = address_and_script addr_type pubkey_hash' num_signers;
          utxo = \<lparr>UTXO.txid = txid', vout = 0, address = address', address_type = addr_type,
                  amount = amt, privkey = privkey', pubkey = pubkey',
                  pubkey_hash = pubkey_hash', script_pubkey = script, spent = False,
                  pubkey_exposed = False, exposure_count = 0,
                  created_block = current_block s\<rparr>;
          r = next_utxo s
      in (r, s\<lparr>utxo_set := utxo_set s @ [r],
               utxo_obj := (utxo_obj s)(r := utxo),
               next_utxo := r + 1,
               random_calls := random_calls s + 2\<rparr>))"

section \<open>BitcoinNetwork: building and broadcasting transactions\<close>

text \<open>
  The loop of \<open>create_transaction\<close> over the inputs: an input whose key is not yet
  exposed is marked exposed and its counter is incremented; every input contributes its
  public key and a signature.
\<close>

fun expose_and_sign ::
  "string \<Rightarrow> nat list \<Rightarrow> string list \<Rightarrow> string list \<Rightarrow> world \<Rightarrow> string list \<times> string list \<times> world"
where
  "expose_and_sign txid' [] pks sigs s = (pks, sigs, s)"
| "expose_and_sign txid' (u # us) pks sigs s =
     (let s1 = (if \<not> pubkey_exposed (utxo_obj s u)
                then s\<lparr>utxo_obj := (utxo_obj s)
                       (u := (utxo_obj s u)\<lparr>pubkey_exposed := True,
                              exposure_count := exposure_count (utxo_obj s u) + 1\<rparr>)\<rparr>
                else s);
          sig_data = txid' @ privkey (utxo_obj s1 u);
          signature = sha256_hexdigest s1 sig_data
      in expose_and_sign txid' us (pks @ [pubkey (utxo_obj s1 u)]) (sigs @ [signature]) s1)"

definition create_transaction ::
  "nat list \<Rightarrow> TxOutput list \<Rightarrow> real \<Rightarrow> bool \<Rightarrow> world \<Rightarrow> nat \<times> world"
where
  "create_transaction ins outs fee' rbf s =
     (let tx_data = concat (map (\<lambda>u. UTXO.txid (utxo_obj s u)) ins)
                      @ float_str s (random_source s (random_calls s));
          s0 = s\<lparr>random_calls := random_calls s + 1\<rparr>;
          txid' = sha256_hexdigest s0 tx_data;
          (pks, sigs, s1) = expose_and_sign txid' ins [] [] s0;
          tx = \<lparr>Transaction.txid = txid', inputs = ins, outputs = outs, fee = fee',
                pubkeys_exposed = pks, signatures = sigs, status = CREATED,
                broadcast_time = current_time s1, confirmation_time = None,
                rbf_enabled = rbf, locktime = 0, witness_data = None,
                competing_txs = [], attack_details = None\<rparr>;
          r = next_tx s1
      in (r, s1\<lparr>tx_obj := (tx_obj s1)(r := tx), next_tx := r + 1\<rparr>))"

text \<open>
  \<open>broadcast_transaction\<close>: the fee percentage that is printed divides by the total
  input, which raises before anything is changed when that total is zero. Storing under
  an id that the dict already holds replaces the entry (\<^const>\<open>AList.update\<close>).
\<close>

definition broadcast_transaction :: "nat \<Rightarrow> world \<Rightarrow> py_error option \<times> world" where
  "broadcast_transaction t s =
     (let tx = tx_obj s t;
          total_input = sum_input_amounts s (inputs tx)
      in if total_input = 0 then (Some ZeroDivisionError, s)
         else
           (let s1 = s\<lparr>tx_obj := (tx_obj s)(t := tx\<lparr>status := BROADCAST\<rparr>)\<rparr>
            in (None, s1\<lparr>mempool := AList.update (Transaction.txid tx) t (mempool s1)\<rparr>)))"

section \<open>The quantum attack\<close>

definition record_failed_attack :: "nat \<Rightarrow> world \<Rightarrow> world" where
  "record_failed_attack a s =
     s\<lparr>attacker_obj := (attacker_obj s)
        (a := (attacker_obj s a)\<lparr>failed_attacks := failed_attacks (attacker_obj s a) + 1\<rparr>)\<rparr>"

text \<open>
  \<open>_execute_quantum_attack\<close>. The calls to the outside world are made in the order of
  the source: \<open>time.time()\<close>, then \<open>random.random()\<close> (only when the attack is fast
  enough), then \<open>random.randint(1000, 9999)\<close>, which is 1000 plus the supplied number
  modulo 9000. The line that prints the fee ratio divides by \<open>tx.fee\<close> and raises,
  before the transaction is touched, when the fee is zero.
\<close>

definition execute_quantum_attack :: "nat \<Rightarrow> nat \<Rightarrow> world \<Rightarrow> py_error option \<times> world" where
  "execute_quantum_attack a t s =
     (let att = attacker_obj s a;
          tx = tx_obj s t;
          total_value = sum_input_amounts s (inputs tx);
          attack_time = estimate_attack_time att (int (length (pubkeys_exposed tx)));
          now = time_source s (time_calls s);
          s1 = s\<lparr>time_calls := time_calls s + 1\<rparr>;
          block_time_remaining = block_time_avg s1 - (now - broadcast_time tx)
      in if attack_time > block_time_remaining then (None, record_failed_attack a s1)
         else
           (let draw = random_source s1 (random_calls s1);
                s2 = s1\<lparr>random_calls := random_calls s1 + 1\<rparr>
            in if draw > success_probability (quantum_computer att)
               then (None, record_failed_attack a s2)
               else
                 (let attacker_address = ''bc1q_quantum_attacker_'' @ QuantumAttacker.name att
                        @ ''_'' @ str_int (1000 + int (randint_source s2 (random_calls s2) mod 9000));
                      s3 = s2\<lparr>random_calls := random_calls s2 + 1\<rparr>;
                      attack_fee' = min (fee tx * 10) (total_value * 0.5);
                      attack_output_value = total_value - attack_fee';
                      competing_txid' =
                        sha256_hexdigest s3 (''attack'' @ Transaction.txid tx @ QuantumAttacker.name att)
                  in if fee tx = 0 then (Some ZeroDivisionError, s3)
                     else
                       (let detail = \<lparr>attacker = QuantumAttacker.name att,
                                       competing_txid = competing_txid',
                                       attack_fee = attack_fee',
                                       destination = attacker_address,
                                       detail_value = attack_output_value\<rparr>;
                            tx1 = tx\<lparr>status := ATTACKED,
                                     competing_txs := competing_txs tx @ [competing_txid']\<rparr>;
                            tx2 = tx1\<lparr>attack_details :=
                                       Some ((case attack_details tx1 of None \<Rightarrow> [] | Some ds \<Rightarrow> ds)
                                             @ [detail])\<rparr>
                        in (None, s3\<lparr>tx_obj := (tx_obj s3)(t := tx2)\<rparr>)))))"

text \<open>The first inner loop of \<open>quantum_attack_scan\<close>: one attacker collects its targets.\<close>

fun collect_targets :: "nat \<Rightarrow> (string \<times> nat) list \<Rightarrow> nat list \<Rightarrow> world \<Rightarrow> nat list \<times> world" where
  "collect_targets a [] targets_found s = (targets_found, s)"
| "collect_targets a ((k, t) # items) targets_found s =
     (if status (tx_obj s t) = ATTACKED then collect_targets a items targets_found s
      else
        (case should_attack (attacker_obj s a) (tx_obj s t) s of
           (True, s1) \<Rightarrow> collect_targets a items (targets_found @ [t]) s1
         | (False, s1) \<Rightarrow> collect_targets a items targets_found s1))"

text \<open>The second inner loop: the attacker attacks each target; an exception ends the scan.\<close>

fun attack_targets :: "nat \<Rightarrow> nat list \<Rightarrow> world \<Rightarrow> py_error option \<times> world" where
  "attack_targets a [] s = (None, s)"
| "attack_targets a (t # ts) s =
     (case execute_quantum_attack a t s of
        (Some e, s1) \<Rightarrow> (Some e, s1)
      | (None, s1) \<Rightarrow> attack_targets a ts s1)"

fun scan_attackers :: "nat list \<Rightarrow> world \<Rightarrow> py_error option \<times> world" where
  "scan_attackers [] s = (None, s)"
| "scan_attackers (a # as) s =
     (case collect_targets a (mempool s) [] s of
        (targets_found, s1) \<Rightarrow>
          if targets_found = [] then scan_attackers as s1
          else
            (case attack_targets a targets_found s1 of
               (Some e, s2) \<Rightarrow> (Some e, s2)
             | (None, s2) \<Rightarrow> scan_attackers as s2))"

definition quantum_attack_scan :: "world \<Rightarrow> py_error option \<times> world" where
  "quantum_attack_scan s =
     (if mempool s = [] then (None, s) else scan_attackers (quantum_attackers s) s)"

section \<open>Mining a block\<close>

text \<open>The key under which \<open>mine_block\<close> groups a transaction: its sorted input ids.\<close>

definition input_key :: "world \<Rightarrow> nat \<Rightarrow> string list" where
  "input_key s t =
     sort (map (\<lambda>u. UTXO.txid (utxo_obj s u) @ '':'' @ str_int (vout (utxo_obj s u)))
               (inputs (tx_obj s t)))"

text \<open>\<open>double_spend_groups[input_key].append(tx)\<close> on a \<open>defaultdict(list)\<close>.\<close>

fun group_append :: "(string list \<times> nat list) list \<Rightarrow> string list \<Rightarrow> nat \<Rightarrow> (string list \<times> nat list) list" where
  "group_append [] k t = [(k, [t])]"
| "group_append ((k', g) # rest) k t =
     (if k' = k then (k', g @ [t]) # rest else (k', g) # group_append rest k t)"

fun group_conflicts ::
  "world \<Rightarrow> nat list \<Rightarrow> (string list \<times> nat list) list \<Rightarrow> (string list \<times> nat list) list"
where
  "group_conflicts s [] groups = groups"
| "group_conflicts s (t # ts) groups = group_conflicts s ts (group_append groups (input_key s t) t)"

text \<open>The transactions of the mempool, sorted by fee rate, highest first (a stable sort).\<close>

definition fee_rate :: "world \<Rightarrow> nat \<Rightarrow> real" where
  "fee_rate s t = fee (tx_obj s t) / sum_input_amounts s (inputs (tx_obj s t))"

definition priority_queue :: "world \<Rightarrow> nat list" where
  "priority_queue s = sort_key (\<lambda>t. - fee_rate s t) (map snd (mempool s))"

definition double_spend_groups :: "world \<Rightarrow> (string list \<times> nat list) list" where
  "double_spend_groups s = group_conflicts s (priority_queue s) []"

text \<open>The update of the attacker statistics for one attack detail of a winner.\<close>

fun credit_attackers :: "AttackDetail \<Rightarrow> nat list \<Rightarrow> world \<Rightarrow> world" where
  "credit_attackers d [] s = s"
| "credit_attackers d (a # as) s =
     (let att = attacker_obj s a
      in if QuantumAttacker.name att = attacker d
         then credit_attackers d as
                (s\<lparr>attacker_obj := (attacker_obj s)
                     (a := att\<lparr>successful_attacks := successful_attacks att + 1,
                              total_stolen := total_stolen att + detail_value d,
                              btc_balance := btc_balance att + detail_value d\<rparr>)\<rparr>)
         else credit_attackers d as s)"

fun credit_details :: "AttackDetail list \<Rightarrow> world \<Rightarrow> world" where
  "credit_details [] s = s"
| "credit_details (d # ds) s = credit_details ds (credit_attackers d (quantum_attackers s) s)"

definition set_status :: "nat \<Rightarrow> TxStatus \<Rightarrow> world \<Rightarrow> world" where
  "set_status t st s = s\<lparr>tx_obj := (tx_obj s)(t := (tx_obj s t)\<lparr>status := st\<rparr>)\<rparr>"

text \<open>
  The body of the loop over the groups, with the local list \<open>confirmed_txs\<close>. A group
  of more than one transaction is sorted by fee, highest first (a stable sort); its
  first element is the winner.
\<close>

definition resolve_group :: "nat list \<Rightarrow> nat list \<Rightarrow> world \<Rightarrow> py_error option \<times> nat list \<times> world" where
  "resolve_group conflicting_txs confirmed_txs s =
     (if length conflicting_txs > 1 then
        (case sort_key (\<lambda>t. - fee (tx_obj s t)) conflicting_txs of
           [] \<Rightarrow> (Some IndexError, confirmed_txs, s)
         | winner # losers \<Rightarrow>
             if status (tx_obj s winner) = ATTACKED then
               (case attack_details (tx_obj s winner) of
                  None \<Rightarrow> (Some AttributeError, confirmed_txs, s)
                | Some details \<Rightarrow>
                    (None, confirmed_txs @ [winner],
                     set_status winner STOLEN (credit_details details s)))
             else (None, confirmed_txs @ [winner], set_status winner CONFIRMED s))
      else
        (case conflicting_txs of
           [] \<Rightarrow> (Some IndexError, confirmed_txs, s)
         | tx # rest \<Rightarrow> (None, confirmed_txs @ [tx], set_status tx CONFIRMED s)))"

fun resolve_groups ::
  "(string list \<times> nat list) list \<Rightarrow> nat list \<Rightarrow> world \<Rightarrow> py_error option \<times> nat list \<times> world"
where
  "resolve_groups [] confirmed_txs s = (None, confirmed_txs, s)"
| "resolve_groups ((k, g) # groups) confirmed_txs s =
     (case resolve_group g confirmed_txs s of
        (Some e, c1, s1) \<Rightarrow> (Some e, c1, s1)
      | (None, c1, s1) \<Rightarrow> resolve_groups groups c1 s1)"

text \<open>
  \<open>mine_block\<close>, returning the local list \<open>confirmed_txs\<close> beside the state. Computing
  the sort keys divides by the total input of every transaction and raises, before
  anything is changed, when one of them is zero.
\<close>

definition mine_block_confirmed :: "world \<Rightarrow> py_error option \<times> nat list \<times> world" where
  "mine_block_confirmed s =
     (if mempool s = [] then (None, [], s\<lparr>current_block := current_block s + 1\<rparr>)
      else if list_ex (\<lambda>t. sum_input_amounts s (inputs (tx_obj s t)) = 0) (map snd (mempool s))
        then (Some ZeroDivisionError, [], s)
      else
        (case resolve_groups (double_spend_groups s) [] s of
           (Some e, confirmed_txs, s1) \<Rightarrow> (Some e, confirmed_txs, s1)
         | (None, confirmed_txs, s1) \<Rightarrow>
             (None, confirmed_txs,
              s1\<lparr>mempool := [],
                 current_block := current_block s1 + 1,
                 current_time := current_time s1 + block_time_avg s1\<rparr>)))"

definition mine_block :: "world \<Rightarrow> py_error option \<times> world" where
  "mine_block s = (case mine_block_confirmed s of (e, confirmed_txs, s1) \<Rightarrow> (e, s1))"

section \<open>Sequences of operations\<close>

text \<open>
  The operations a driver calls on the network. \<open>step\<close> gives the state an operation
  leaves behind, whether it returned or raised.
\<close>

datatype operation =
    CreateOutput AddressType real int
  | BuildTransaction "nat list" "TxOutput list" real bool
  | Broadcast nat
  | AttackScan
  | MineBlock

fun step :: "operation \<Rightarrow> world \<Rightarrow> world" where
  "step (CreateOutput addr_type amt num_signers) s = snd (create_utxo addr_type amt num_signers s)"
| "step (BuildTransaction ins outs fee' rbf) s = snd (create_transaction ins outs fee' rbf s)"
| "step (Broadcast t) s = snd (broadcast_transaction t s)"
| "step AttackScan s = snd (quantum_attack_scan s)"
| "step MineBlock s = snd (mine_block s)"

fun run :: "operation list \<Rightarrow> world \<Rightarrow> world" where
  "run [] s = s"
| "run (op # ops) s = run ops (step op s)"

text \<open>
  The address-reuse fragment of \<open>run_advanced_simulation\<close>: a fresh output whose public
  key is copied from an earlier one and which is marked exposed by hand.
\<close>

definition create_reused_utxo :: "nat \<Rightarrow> real \<Rightarrow> world \<Rightarrow> nat \<times> world" where
  "create_reused_utxo prior amt s =
     (case create_utxo P2PKH amt 1 s of
        (r, s1) \<Rightarrow>
          (r, s1\<lparr>utxo_obj := (utxo_obj s1)
                   (r := (utxo_obj s1 r)\<lparr>pubkey := pubkey (utxo_obj s1 prior),
                          pubkey_exposed := True, exposure_count := 2\<rparr>)\<rparr>))"

section \<open>Concrete states\<close>

text \<open>
  An outside world to run the operations in: the stand-in for SHA-256 is the identity,
  a float is printed as its number of hundredths, the \<open>k\<close>-th random number is
  \<open>k / 100\<close>, and the clock starts at 1000 and advances by 10 at each reading.
  Unallocated cells of the object stores hold blank objects.
\<close>

definition blank_utxo :: UTXO where
  "blank_utxo = \<lparr>UTXO.txid = [], vout = 0, address = [], address_type = P2PKH, amount = 0,
     privkey = [], pubkey = [], pubkey_hash = [], script_pubkey = [], spent = False,
     pubkey_exposed = False, exposure_count = 0, created_block = 0\<rparr>"

definition blank_tx :: Transaction where
  "blank_tx = \<lparr>Transaction.txid = [], inputs = [], outputs = [], fee = 0,
     pubkeys_exposed = [], signatures = [], status = CREATED, broadcast_time = 0,
     confirmation_time = None, rbf_enabled = False, locktime = 0, witness_data = None,
     competing_txs = [], attack_details = None\<rparr>"

text \<open>The first quantum computer and the first attacker of \<open>run_advanced_simulation\<close>.\<close>

definition qc1 :: QuantumComputer where
  "qc1 = \<lparr>QuantumComputer.name = ''IBM Quantum-X'', qubits = 4000, error_rate = 0.0005,
     key_derivation_time = 120, success_probability = 0.95\<rparr>"

definition attacker1 :: QuantumAttacker where
  "attacker1 = \<lparr>QuantumAttacker.name = ''QuantumPirate'', quantum_computer = qc1,
     btc_balance = 0, successful_attacks = 0, failed_attacks = 0, total_stolen = 0,
     attack_strategy = ''AGGRESSIVE''\<rparr>"

text \<open>The same attacker with a quantum computer that never fails.\<close>

definition sure_attacker :: QuantumAttacker where
  "sure_attacker = attacker1\<lparr>quantum_computer := qc1\<lparr>success_probability := 1.0\<rparr>\<rparr>"

definition outside_world :: world where
  "outside_world =
     \<lparr>current_block = 0, current_time = 0, block_time_avg = 0, mempool = [],
      blockchain = [], utxo_set = [], quantum_attackers = [], network_hash_rate = 0,
      difficulty_adjustment = 0,
      utxo_obj = (\<lambda>r. blank_utxo), next_utxo = 0,
      tx_obj = (\<lambda>r. blank_tx), next_tx = 0,
      attacker_obj = (\<lambda>r. sure_attacker),
      sha256_hexdigest = (\<lambda>x. x),
      float_str = (\<lambda>x. digits (nat \<lfloor>x * 100\<rfloor>)),
      random_source = (\<lambda>k. real k / 100),
      randint_source = (\<lambda>k. k),
      random_calls = 0,
      time_source = (\<lambda>k. 1000 + 10 * real k),
      time_calls = 0\<rparr>"

text \<open>A new network watched by the attacker that never fails.\<close>

definition net0 :: world where
  "net0 = (init_network outside_world)\<lparr>quantum_attackers := [0]\<rparr>"

text \<open>
  Scenario 3 of \<open>run_advanced_simulation\<close>: Carol owns 22 BTC and sends 21.8 BTC with a
  fee of 0.2 BTC; the transaction is broadcast, the attackers scan the mempool, a block
  is mined.
\<close>

definition carol_net1 :: world where
  "carol_net1 = snd (create_utxo P2TR 22.0 1 net0)"

definition carol_net2 :: world where
  "carol_net2 =
     snd (create_transaction [0]
            [\<lparr>TxOutput.address = ''bc1p_carol_recipient_taproot'', amount = 21.8\<rparr>] 0.2 False
            carol_net1)"

definition carol_net3 :: world where
  "carol_net3 = snd (broadcast_transaction 0 carol_net2)"

definition carol_net4 :: world where
  "carol_net4 = snd (quantum_attack_scan carol_net3)"

definition carol_net5 :: world where
  "carol_net5 = snd (mine_block carol_net4)"

text \<open>
  An output of 1 BTC, and a transaction that spends it with an output of 5 BTC and a fee
  of 1 BTC.
\<close>

definition over_net1 :: world where
  "over_net1 = snd (create_utxo P2PKH 1.0 1 net0)"

definition over_net2 :: world where
  "over_net2 =
     snd (create_transaction [0] [\<lparr>TxOutput.address = ''1_recipient'', amount = 5.0\<rparr>] 1.0 False
            over_net1)"

text \<open>
  Carol's network after the broadcast, watched by an attacker whose quantum computer
  needs 1000 seconds per key.
\<close>

definition slow_attacker :: QuantumAttacker where
  "slow_attacker = attacker1\<lparr>quantum_computer := qc1\<lparr>key_derivation_time := 1000\<rparr>\<rparr>"

definition slow_net3 :: world where
  "slow_net3 = carol_net3\<lparr>attacker_obj := (\<lambda>r. slow_attacker)\<rparr>"

text \<open>
  A double spend: Carol builds a second transaction that spends the same output with a
  fee of 0.1 BTC, both transactions are broadcast, the attacker that never fails attacks
  the first one, and a block is mined.
\<close>

definition double_net3 :: world where
  "double_net3 =
     snd (create_transaction [0]
            [\<lparr>TxOutput.address = ''bc1p_carol_second_recipient'', amount = 21.9\<rparr>] 0.1 False
            carol_net2)"

definition double_net4 :: world where
  "double_net4 = snd (broadcast_transaction 1 (snd (broadcast_transaction 0 double_net3)))"

definition double_net5 :: world where
  "double_net5 = snd (execute_quantum_attack 0 0 double_net4)"

definition double_net6 :: world where
  "double_net6 = snd (mine_block double_net5)"

text \<open>
  Scenario 6 of \<open>run_advanced_simulation\<close>, after Carol's block: an output that reuses
  the key of output 0 and is marked exposed by hand, and a transaction that spends it.
\<close>

definition reuse_net6 :: world where
  "reuse_net6 = snd (create_reused_utxo 0 10.0 carol_net5)"

definition reuse_net7 :: world where
  "reuse_net7 =
     snd (create_transaction [1]
            [\<lparr>TxOutput.address = ''1_alice_new_recipient'', amount = 9.9\<rparr>] 0.1 False reuse_net6)"

text \<open>The operations of scenario 3 after the creation of Carol's output, and one more output.\<close>

definition carol_operations :: "operation list" where
  "carol_operations =
     [BuildTransaction [0]
        [\<lparr>TxOutput.address = ''bc1p_carol_recipient_taproot'', amount = 21.8\<rparr>] 0.2 False,
      Broadcast 0, AttackScan, MineBlock, CreateOutput P2PKH 10.0 1]"

text \<open>
  Attackers whose quantum computers are given 0 seconds and -1 second per key.
\<close>

definition instant_attacker :: QuantumAttacker where
  "instant_attacker = attacker1\<lparr>quantum_computer := qc1\<lparr>key_derivation_time := 0\<rparr>\<rparr>"

definition negative_attacker :: QuantumAttacker where
  "negative_attacker = attacker1\<lparr>quantum_computer := qc1\<lparr>key_derivation_time := - 1\<rparr>\<rparr>"

text \<open>
  A world whose random generator returns the same number at every call, as a generator
  does that is seeded anew before each call. Two transactions built from the same
  inputs then have the same id: the first one is broadcast, the second one is built
  afterwards, is in status CREATED, and is broadcast in turn.
\<close>

definition repeating_world :: world where
  "repeating_world = outside_world\<lparr>random_source := (\<lambda>k. 0.5)\<rparr>"

definition dup_net1 :: world where
  "dup_net1 = snd (create_utxo P2TR 22.0 1 (init_network repeating_world))"

definition dup_net2 :: world where
  "dup_net2 =
     snd (create_transaction [0]
            [\<lparr>TxOutput.address = ''bc1p_carol_recipient_taproot'', amount = 21.8\<rparr>] 0.2 False
            dup_net1)"

definition dup_net3 :: world where
  "dup_net3 = snd (broadcast_transaction 0 dup_net2)"

definition dup_net4 :: world where
  "dup_net4 =
     snd (create_transaction [0]
            [\<lparr>TxOutput.address = ''bc1p_carol_second_recipient'', amount = 21.7\<rparr>] 0.3 False
            dup_net3)"

definition dup_net5 :: world where
  "dup_net5 = snd (broadcast_transaction 1 dup_net4)"

section \<open>Auxiliary notions\<close>

text \<open>
  The dict of conflict groups \<open>gs\<close> is the grouping of the transactions \<open>ps\<close> by input
  key: its keys are distinct, and the list stored under a key holds, in order, the
  transactions of \<open>ps\<close> with that key.
\<close>

definition grouped :: "world \<Rightarrow> (string list \<times> nat list) list \<Rightarrow> nat list \<Rightarrow> bool" where
  "grouped s gs ps \<longleftrightarrow>
     distinct (map fst gs) \<and>
     (\<forall>k. map_of gs k =
        (if filter (\<lambda>t. input_key s t = k) ps = [] then None
         else Some (filter (\<lambda>t. input_key s t = k) ps)))"

text \<open>The part of the state that holds the UTXO objects and their registry.\<close>

definition utxo_part :: "world \<Rightarrow> (nat \<Rightarrow> UTXO) \<times> nat list \<times> nat" where
  "utxo_part s = (utxo_obj s, utxo_set s, next_utxo s)"


section \<open>Lemmas\<close>

subsection \<open>Sorting: the head of a sorted list\<close>

lemma sort_key_Cons_min:
  assumes "sort_key f xs = w # rest"
  shows "w \<in> set xs \<and> (\<forall>y\<in>set xs. f w \<le> f y)"
proof -
  have s: "set (w # rest) = set xs"
    using assms set_sort [of f xs] by simp
  have "sorted (map f (w # rest))"
    using assms sorted_sort_key [of f xs] by simp
  then have "\<forall>y\<in>set rest. f w \<le> f y" by simp
  with s show ?thesis by auto
qed

lemma sort_key_nonempty: "xs \<noteq> [] \<Longrightarrow> sort_key f xs \<noteq> []"
  using length_sort [of f xs] by (metis length_0_conv)

subsection \<open>Grouping by input key\<close>

lemma map_of_group_append:
  "map_of (group_append gs k t) k' =
     (if k' = k then Some ((case map_of gs k of None \<Rightarrow> [] | Some g \<Rightarrow> g) @ [t])
      else map_of gs k')"
  by (induction gs k t rule: group_append.induct) auto

lemma keys_group_append:
  "map fst (group_append gs k t) = (if k \<in> fst ` set gs then map fst gs else map fst gs @ [k])"
  by (induction gs k t rule: group_append.induct) auto

lemma distinct_group_append:
  "distinct (map fst gs) \<Longrightarrow> distinct (map fst (group_append gs k t))"
  by (simp add: keys_group_append)

lemma grouped_append:
  assumes "grouped s gs ps"
  shows "grouped s (group_append gs (input_key s t) t) (ps @ [t])"
  using assms unfolding grouped_def
  by (auto simp: distinct_group_append map_of_group_append)

lemma grouped_group_conflicts:
  "grouped s gs ps \<Longrightarrow> grouped s (group_conflicts s ts gs) (ps @ ts)"
proof (induction ts arbitrary: gs ps)
  case Nil
  then show ?case by simp
next
  case (Cons t ts)
  from Cons.IH [OF grouped_append [OF Cons.prems, of t]] show ?case by simp
qed

lemma grouped_double_spend_groups: "grouped s (double_spend_groups s) (priority_queue s)"
  using grouped_group_conflicts [of s "[]" "[]" "priority_queue s"]
  by (simp add: double_spend_groups_def grouped_def)

lemma grouped_member:
  assumes "grouped s gs ps" and "(k, g) \<in> set gs"
  shows "g = filter (\<lambda>t. input_key s t = k) ps \<and> g \<noteq> []"
proof -
  from assms(1) have "distinct (map fst gs)" by (simp add: grouped_def)
  with assms(2) have m: "map_of gs k = Some g" by simp
  from assms(1) have
    "map_of gs k = (if filter (\<lambda>t. input_key s t = k) ps = [] then None
                    else Some (filter (\<lambda>t. input_key s t = k) ps))"
    unfolding grouped_def by blast
  with m show ?thesis
    by (auto split: if_splits)
qed

lemma set_priority_queue: "set (priority_queue s) = snd ` set (mempool s)"
  by (simp add: priority_queue_def)

lemma filter_priority_queue_length:
  "length (filter P (priority_queue s)) = length (filter P (map snd (mempool s)))"
  by (simp add: priority_queue_def filter_sort)

subsection \<open>What the operations leave alone: the UTXO objects\<close>

lemma create_utxo_spent:
  "spent (utxo_obj (snd (create_utxo ty amt n s)) u) \<Longrightarrow> spent (utxo_obj s u)"
  by (simp add: create_utxo_def Let_def split: prod.splits if_splits)

lemma expose_and_sign_spent:
  "expose_and_sign i us pks sigs s = (pks', sigs', s') \<Longrightarrow>
     spent (utxo_obj s' u) = spent (utxo_obj s u)"
  by (induction i us pks sigs s rule: expose_and_sign.induct) (auto simp: Let_def split: if_splits)

lemma expose_and_sign_frame:
  "expose_and_sign i us pks sigs s = (pks', sigs', s') \<Longrightarrow>
     utxo_set s' = utxo_set s \<and> next_utxo s' = next_utxo s \<and> tx_obj s' = tx_obj s
     \<and> next_tx s' = next_tx s \<and> mempool s' = mempool s \<and> attacker_obj s' = attacker_obj s
     \<and> quantum_attackers s' = quantum_attackers s \<and> current_time s' = current_time s"
  by (induction i us pks sigs s rule: expose_and_sign.induct) (auto simp: Let_def split: if_splits)

lemma create_transaction_spent:
  "spent (utxo_obj (snd (create_transaction ins outs f rbf s)) u) = spent (utxo_obj s u)"
  by (auto simp: create_transaction_def Let_def split: prod.splits dest!: expose_and_sign_spent)

lemma expose_and_sign_exposes:
  "expose_and_sign i us pks sigs s = (pks', sigs', s') \<Longrightarrow>
     pubkey_exposed (utxo_obj s' u) = (pubkey_exposed (utxo_obj s u) \<or> u \<in> set us)"
  by (induction i us pks sigs s rule: expose_and_sign.induct) (auto simp: Let_def split: if_splits)

lemma expose_and_sign_exposes_all:
  "expose_and_sign i us pks sigs s = (pks', sigs', s') \<Longrightarrow>
     \<forall>u. pubkey_exposed (utxo_obj s' u) = (pubkey_exposed (utxo_obj s u) \<or> u \<in> set us)"
  using expose_and_sign_exposes by blast

subsection \<open>Resolving one conflict group\<close>

lemma credit_attackers_frame:
  "tx_obj (credit_attackers d as s) = tx_obj s \<and> utxo_part (credit_attackers d as s) = utxo_part s
   \<and> quantum_attackers (credit_attackers d as s) = quantum_attackers s
   \<and> mempool (credit_attackers d as s) = mempool s"
  by (induction d as s rule: credit_attackers.induct) (simp_all add: Let_def utxo_part_def)

lemma credit_details_frame:
  "tx_obj (credit_details ds s) = tx_obj s \<and> utxo_part (credit_details ds s) = utxo_part s
   \<and> quantum_attackers (credit_details ds s) = quantum_attackers s
   \<and> mempool (credit_details ds s) = mempool s"
  by (induction ds s rule: credit_details.induct) (simp_all add: credit_attackers_frame)

lemma set_status_frame:
  "tx_obj (set_status w st s) = (tx_obj s)(w := (tx_obj s w)\<lparr>status := st\<rparr>)
   \<and> utxo_part (set_status w st s) = utxo_part s
   \<and> quantum_attackers (set_status w st s) = quantum_attackers s
   \<and> mempool (set_status w st s) = mempool s"
  by (simp add: set_status_def utxo_part_def)

lemma resolve_group_cases:
  assumes "resolve_group g c s = (e, c', s')"
  shows "(e \<noteq> None \<and> c' = c \<and> s' = s)
         \<or> (e = None \<and>
             (\<exists>w\<in>set g. (\<forall>y\<in>set g. fee (tx_obj s y) \<le> fee (tx_obj s w))
                \<and> c' = c @ [w]
                \<and> tx_obj s' = (tx_obj s)(w := (tx_obj s w)
                     \<lparr>status := (if 1 < length g \<and> status (tx_obj s w) = ATTACKED
                                  then STOLEN else CONFIRMED)\<rparr>)
                \<and> utxo_part s' = utxo_part s \<and> mempool s' = mempool s))"
proof (cases "1 < length g")
  case True
  then have ne: "g \<noteq> []" by auto
  obtain w losers where sk: "sort_key (\<lambda>t. - fee (tx_obj s t)) g = w # losers"
    using sort_key_nonempty [OF ne, of "\<lambda>t. - fee (tx_obj s t)"] by (cases "sort_key (\<lambda>t. - fee (tx_obj s t)) g") auto
  from sort_key_Cons_min [OF sk] have w: "w \<in> set g" "\<forall>y\<in>set g. fee (tx_obj s y) \<le> fee (tx_obj s w)"
    by auto
  show ?thesis
    using assms True w
    by (auto simp: resolve_group_def sk set_status_frame credit_details_frame
             split: option.splits if_splits)
next
  case False
  with assms show ?thesis
    by (cases g) (auto simp: resolve_group_def set_status_frame split: if_splits)
qed

subsection \<open>The loop over the conflict groups\<close>

lemma resolve_groups_frame:
  "resolve_groups gs c s = (e, c', s') \<Longrightarrow>
     utxo_part s' = utxo_part s \<and> mempool s' = mempool s
     \<and> (\<forall>t. fee (tx_obj s' t) = fee (tx_obj s t) \<and> inputs (tx_obj s' t) = inputs (tx_obj s t))"
proof (induction gs arbitrary: c s)
  case Nil
  then show ?case by simp
next
  case (Cons kg gs)
  obtain k g where kg: "kg = (k, g)" by (cases kg)
  obtain e1 c1 s1 where r: "resolve_group g c s = (e1, c1, s1)" by (cases "resolve_group g c s")
  from resolve_group_cases [OF r]
  have f1: "utxo_part s1 = utxo_part s \<and> mempool s1 = mempool s
     \<and> (\<forall>t. fee (tx_obj s1 t) = fee (tx_obj s t) \<and> inputs (tx_obj s1 t) = inputs (tx_obj s t))"
    by auto
  show ?case
  proof (cases e1)
    case None
    with Cons.prems kg r have "resolve_groups gs c1 s1 = (e, c', s')" by simp
    from Cons.IH [OF this] f1 show ?thesis by simp
  next
    case (Some err)
    with Cons.prems kg r have "s' = s1" by simp
    with f1 show ?thesis by simp
  qed
qed



text \<open>A status that the loop turns into STOLEN was ATTACKED, at the winner of a group.\<close>

lemma resolve_groups_stolen:
  "resolve_groups gs c s = (e, c', s') \<Longrightarrow> status (tx_obj s' x) = STOLEN \<Longrightarrow>
   status (tx_obj s x) \<noteq> STOLEN \<Longrightarrow>
     \<exists>(k, g)\<in>set gs. x \<in> set g \<and> 1 < length g
        \<and> (\<forall>y\<in>set g. fee (tx_obj s y) \<le> fee (tx_obj s x))
        \<and> status (tx_obj s x) = ATTACKED"
proof (induction gs arbitrary: c s)
  case Nil
  then show ?case by simp
next
  case (Cons kg gs)
  obtain k g where kg: "kg = (k, g)" by (cases kg)
  obtain e1 c1 s1 where r: "resolve_group g c s = (e1, c1, s1)" by (cases "resolve_group g c s")
  note rc = resolve_group_cases [OF r]
  show ?case
  proof (cases "status (tx_obj s1 x) = STOLEN")
    case True
    with rc Cons.prems(3) have "x \<in> set g \<and> 1 < length g
        \<and> (\<forall>y\<in>set g. fee (tx_obj s y) \<le> fee (tx_obj s x)) \<and> status (tx_obj s x) = ATTACKED"
      by (auto split: if_splits)
    with kg show ?thesis by auto
  next
    case False
    with Cons.prems(2) have "s' \<noteq> s1" by auto
    with Cons.prems(1) kg r have e1: "e1 = None" and rest: "resolve_groups gs c1 s1 = (e, c', s')"
      by (cases e1; simp)+
    from Cons.IH [OF rest Cons.prems(2) False]
    obtain k' g' where g': "(k', g') \<in> set gs" "x \<in> set g'" "1 < length g'"
        "\<forall>y\<in>set g'. fee (tx_obj s1 y) \<le> fee (tx_obj s1 x)" "status (tx_obj s1 x) = ATTACKED"
      by auto
    from rc e1 have fee: "\<forall>t. fee (tx_obj s1 t) = fee (tx_obj s t)" by auto
    from rc e1 g'(5) have "status (tx_obj s x) = ATTACKED"
      by (auto split: if_splits)
    with g' fee kg show ?thesis by auto
  qed
qed


subsection \<open>What the attack scan changes\<close>

lemma should_attack_frame:
  "should_attack a tx s = (b, s') \<Longrightarrow>
     tx_obj s' = tx_obj s \<and> utxo_part s' = utxo_part s \<and> mempool s' = mempool s
     \<and> attacker_obj s' = attacker_obj s"
  by (auto simp: should_attack_def Let_def utxo_part_def split: if_splits)

lemma collect_targets_frame:
  "collect_targets a items found s = (found', s') \<Longrightarrow>
     tx_obj s' = tx_obj s \<and> utxo_part s' = utxo_part s \<and> mempool s' = mempool s
     \<and> attacker_obj s' = attacker_obj s"
proof (induction a items found s rule: collect_targets.induct)
  case (1 a targets_found s)
  then show ?case by simp
next
  case (2 a k t items targets_found s)
  show ?case
  proof (cases "status (tx_obj s t) = ATTACKED")
    case True
    with 2 show ?thesis by simp
  next
    case False
    obtain b s1 where sa: "should_attack (attacker_obj s a) (tx_obj s t) s = (b, s1)"
      by (cases "should_attack (attacker_obj s a) (tx_obj s t) s")
    note f = should_attack_frame [OF sa]
    show ?thesis
    proof (cases b)
      case True
      with 2(2) [OF False sa [symmetric]] 2(4) False sa f show ?thesis by simp
    next
      case b: False
      with 2(3) [OF False sa [symmetric]] 2(4) False sa f show ?thesis by simp
    qed
  qed
qed

lemma execute_quantum_attack_frame:
  "utxo_part (snd (execute_quantum_attack a t s)) = utxo_part s
   \<and> mempool (snd (execute_quantum_attack a t s)) = mempool s"
  by (simp add: execute_quantum_attack_def Let_def record_failed_attack_def utxo_part_def)

lemma execute_quantum_attack_status:
  "status (tx_obj (snd (execute_quantum_attack a t s)) x) \<noteq> ATTACKED \<Longrightarrow>
     status (tx_obj (snd (execute_quantum_attack a t s)) x) = status (tx_obj s x)"
  by (simp add: execute_quantum_attack_def Let_def record_failed_attack_def split: if_splits)

lemma attack_targets_frame:
  "utxo_part (snd (attack_targets a ts s)) = utxo_part s
   \<and> mempool (snd (attack_targets a ts s)) = mempool s"
proof (induction a ts s rule: attack_targets.induct)
  case (1 a s)
  then show ?case by simp
next
  case (2 a t ts s)
  obtain e s1 where x: "execute_quantum_attack a t s = (e, s1)"
    by (cases "execute_quantum_attack a t s")
  from execute_quantum_attack_frame [of a t s] x
  have f: "utxo_part s1 = utxo_part s \<and> mempool s1 = mempool s" by simp
  show ?case
  proof (cases e)
    case None
    with 2 [OF x [symmetric] None] x f show ?thesis by simp
  next
    case (Some err)
    with x f show ?thesis by simp
  qed
qed

lemma attack_targets_status:
  "status (tx_obj (snd (attack_targets a ts s)) x) \<noteq> ATTACKED \<Longrightarrow>
     status (tx_obj (snd (attack_targets a ts s)) x) = status (tx_obj s x)"
proof (induction a ts s rule: attack_targets.induct)
  case (1 a s)
  then show ?case by simp
next
  case (2 a t ts s)
  obtain e s1 where x: "execute_quantum_attack a t s = (e, s1)"
    by (cases "execute_quantum_attack a t s")
  from execute_quantum_attack_status [of a t s x] x
  have f: "status (tx_obj s1 x) \<noteq> ATTACKED \<Longrightarrow> status (tx_obj s1 x) = status (tx_obj s x)" by simp
  show ?case
  proof (cases e)
    case None
    with 2 x have a: "status (tx_obj (snd (attack_targets a ts s1)) x) \<noteq> ATTACKED"
      by simp
    from 2(1) [OF x [symmetric] None a] a f None x show ?thesis by auto
  next
    case (Some err)
    with 2(2) x f show ?thesis by simp
  qed
qed

lemma scan_attackers_frame:
  "utxo_part (snd (scan_attackers as s)) = utxo_part s
   \<and> mempool (snd (scan_attackers as s)) = mempool s"
proof (induction as s rule: scan_attackers.induct)
  case (1 s)
  then show ?case by simp
next
  case (2 a as s)
  obtain found s1 where c: "collect_targets a (mempool s) [] s = (found, s1)"
    by (cases "collect_targets a (mempool s) [] s")
  note f1 = collect_targets_frame [OF c]
  show ?case
  proof (cases "found = []")
    case True
    with 2(1) [OF c [symmetric] True] c f1 show ?thesis by simp
  next
    case False
    obtain e s2 where t: "attack_targets a found s1 = (e, s2)"
      by (cases "attack_targets a found s1")
    from attack_targets_frame [of a found s1] t f1
    have f2: "utxo_part s2 = utxo_part s \<and> mempool s2 = mempool s" by simp
    show ?thesis
    proof (cases e)
      case None
      with 2(2) [OF c [symmetric] False t [symmetric] None] c t f2 False show ?thesis by simp
    next
      case (Some err)
      with c t f2 False show ?thesis by simp
    qed
  qed
qed

lemma scan_attackers_status:
  "status (tx_obj (snd (scan_attackers as s)) x) \<noteq> ATTACKED \<Longrightarrow>
     status (tx_obj (snd (scan_attackers as s)) x) = status (tx_obj s x)"
proof (induction as s rule: scan_attackers.induct)
  case (1 s)
  then show ?case by simp
next
  case (2 a as s)
  obtain found s1 where c: "collect_targets a (mempool s) [] s = (found, s1)"
    by (cases "collect_targets a (mempool s) [] s")
  from collect_targets_frame [OF c] have f1: "tx_obj s1 = tx_obj s" by simp
  show ?case
  proof (cases "found = []")
    case True
    with 2(3) c have "status (tx_obj (snd (scan_attackers as s1)) x) \<noteq> ATTACKED" by simp
    from 2(1) [OF c [symmetric] True this] c f1 True show ?thesis by simp
  next
    case False
    obtain e s2 where t: "attack_targets a found s1 = (e, s2)"
      by (cases "attack_targets a found s1")
    from attack_targets_status [of a found s1 x] t f1
    have f2: "status (tx_obj s2 x) \<noteq> ATTACKED \<Longrightarrow> status (tx_obj s2 x) = status (tx_obj s x)"
      by simp
    show ?thesis
    proof (cases e)
      case None
      with 2(3) c t False have a: "status (tx_obj (snd (scan_attackers as s2)) x) \<noteq> ATTACKED"
        by simp
      from 2(2) [OF c [symmetric] False t [symmetric] None a] a f2 c t None False
      show ?thesis by auto
    next
      case (Some err)
      with 2(3) c t f2 False show ?thesis by simp
    qed
  qed
qed

lemma quantum_attack_scan_frame:
  "utxo_part (snd (quantum_attack_scan s)) = utxo_part s
   \<and> mempool (snd (quantum_attack_scan s)) = mempool s"
  by (simp add: quantum_attack_scan_def scan_attackers_frame)

lemma quantum_attack_scan_status:
  "status (tx_obj (snd (quantum_attack_scan s)) x) \<noteq> ATTACKED \<Longrightarrow>
     status (tx_obj (snd (quantum_attack_scan s)) x) = status (tx_obj s x)"
  using scan_attackers_status [of "quantum_attackers s" s x]
  by (simp add: quantum_attack_scan_def split: if_splits)

subsection \<open>Mining a block\<close>



lemma mine_block_confirmed_cases:
  assumes "mine_block_confirmed s = (e, c, s')"
  shows "tx_obj s' = tx_obj s
         \<or> (\<exists>s1. resolve_groups (double_spend_groups s) [] s = (e, c, s1) \<and> tx_obj s' = tx_obj s1)"
  using assms
  by (auto simp: mine_block_confirmed_def split: if_splits prod.splits option.splits)

lemma mine_block_confirmed_frame:
  "utxo_part (snd (snd (mine_block_confirmed s))) = utxo_part s"
proof -
  obtain e c s1 where r: "resolve_groups (double_spend_groups s) [] s = (e, c, s1)"
    by (cases "resolve_groups (double_spend_groups s) [] s")
  from resolve_groups_frame [OF r] have "utxo_part s1 = utxo_part s" by simp
  then show ?thesis
    by (cases e) (simp_all add: mine_block_confirmed_def r utxo_part_def)
qed

lemma mine_block_frame: "utxo_part (snd (mine_block s)) = utxo_part s"
  using mine_block_confirmed_frame [of s]
  by (cases "mine_block_confirmed s") (simp add: mine_block_def)

lemma mine_block_stolen:
  assumes "status (tx_obj (snd (mine_block s)) x) = STOLEN" and "status (tx_obj s x) \<noteq> STOLEN"
  shows "status (tx_obj s x) = ATTACKED \<and> x \<in> set (map snd (mempool s))
         \<and> 1 < length (filter (\<lambda>y. input_key s y = input_key s x) (map snd (mempool s)))
         \<and> (\<forall>y\<in>set (map snd (mempool s)). input_key s y = input_key s x \<longrightarrow>
               fee (tx_obj s y) \<le> fee (tx_obj s x))"
proof -
  obtain e c s' where m: "mine_block_confirmed s = (e, c, s')"
    by (cases "mine_block_confirmed s")
  with assms(1) have st: "status (tx_obj s' x) = STOLEN" by (simp add: mine_block_def)
  from mine_block_confirmed_cases [OF m] st assms(2)
  obtain s1 where r: "resolve_groups (double_spend_groups s) [] s = (e, c, s1)"
    and s1: "status (tx_obj s1 x) = STOLEN" by auto
  from resolve_groups_stolen [OF r s1 assms(2)]
  obtain k g where g: "(k, g) \<in> set (double_spend_groups s)" "x \<in> set g" "1 < length g"
      "\<forall>y\<in>set g. fee (tx_obj s y) \<le> fee (tx_obj s x)" "status (tx_obj s x) = ATTACKED"
    by auto
  from grouped_member [OF grouped_double_spend_groups g(1)]
  have gf: "g = filter (\<lambda>t. input_key s t = k) (priority_queue s)" by simp
  with g(2) have kx: "k = input_key s x" and xq: "x \<in> set (priority_queue s)" by auto
  from gf kx g(3) have len: "1 < length (filter (\<lambda>y. input_key s y = input_key s x) (map snd (mempool s)))"
    by (simp add: filter_priority_queue_length)
  from gf kx g(4) have "\<forall>y\<in>set (map snd (mempool s)). input_key s y = input_key s x \<longrightarrow>
               fee (tx_obj s y) \<le> fee (tx_obj s x)"
    by (auto simp: set_priority_queue [symmetric])
  with g(5) xq len show ?thesis by (simp add: set_priority_queue)
qed

lemma create_transaction_status:
  "status (tx_obj (snd (create_transaction ins outs f rbf s)) x) \<noteq> CREATED \<Longrightarrow>
     status (tx_obj (snd (create_transaction ins outs f rbf s)) x) = status (tx_obj s x)"
  by (auto simp: create_transaction_def Let_def split: prod.splits if_splits
           dest!: expose_and_sign_frame)

subsection \<open>Whole operations and the UTXO objects\<close>

lemma expose_and_sign_exposure:
  "expose_and_sign i us pks sigs s = (pks', sigs', s') \<Longrightarrow>
     pubkey_exposed (utxo_obj s' u) = (pubkey_exposed (utxo_obj s u) \<or> u \<in> set us)
     \<and> exposure_count (utxo_obj s' u) =
         exposure_count (utxo_obj s u)
           + (if \<not> pubkey_exposed (utxo_obj s u) \<and> u \<in> set us then 1 else 0)"
  by (induction i us pks sigs s rule: expose_and_sign.induct) (auto simp: Let_def split: if_splits)

lemma expose_and_sign_exposure_snd:
  "pubkey_exposed (utxo_obj (snd (snd (expose_and_sign i us pks sigs s))) u)
     = (pubkey_exposed (utxo_obj s u) \<or> u \<in> set us)"
  "exposure_count (utxo_obj (snd (snd (expose_and_sign i us pks sigs s))) u)
     = exposure_count (utxo_obj s u)
         + (if \<not> pubkey_exposed (utxo_obj s u) \<and> u \<in> set us then 1 else 0)"
  using expose_and_sign_exposure [of i us pks sigs s _ _ _ u]
  by (cases "expose_and_sign i us pks sigs s"; simp)+

lemma create_transaction_exposure:
  "pubkey_exposed (utxo_obj (snd (create_transaction ins outs f rbf s)) u)
     = (pubkey_exposed (utxo_obj s u) \<or> u \<in> set ins)
   \<and> exposure_count (utxo_obj (snd (create_transaction ins outs f rbf s)) u)
       = exposure_count (utxo_obj s u)
           + (if \<not> pubkey_exposed (utxo_obj s u) \<and> u \<in> set ins then 1 else 0)"
  by (simp add: create_transaction_def Let_def case_prod_beta expose_and_sign_exposure_snd)

lemma create_transaction_frame:
  "utxo_set (snd (create_transaction ins outs f rbf s)) = utxo_set s
   \<and> next_utxo (snd (create_transaction ins outs f rbf s)) = next_utxo s"
  by (auto simp: create_transaction_def Let_def split: prod.splits dest!: expose_and_sign_frame)

lemma create_transaction_result:
  "status (tx_obj (snd (create_transaction ins outs f rbf s))
                  (fst (create_transaction ins outs f rbf s))) = CREATED
   \<and> inputs (tx_obj (snd (create_transaction ins outs f rbf s))
                  (fst (create_transaction ins outs f rbf s))) = ins
   \<and> outputs (tx_obj (snd (create_transaction ins outs f rbf s))
                  (fst (create_transaction ins outs f rbf s))) = outs
   \<and> fee (tx_obj (snd (create_transaction ins outs f rbf s))
                  (fst (create_transaction ins outs f rbf s))) = f"
  by (simp add: create_transaction_def Let_def split: prod.splits)

lemma broadcast_transaction_frame:
  "utxo_part (snd (broadcast_transaction t s)) = utxo_part s"
  by (simp add: broadcast_transaction_def Let_def utxo_part_def)

lemma step_utxo_part:
  "utxo_part (step (Broadcast t) s) = utxo_part s"
  "utxo_part (step AttackScan s) = utxo_part s"
  "utxo_part (step MineBlock s) = utxo_part s"
  by (simp_all add: broadcast_transaction_frame quantum_attack_scan_frame mine_block_frame)

lemma utxo_partD:
  "utxo_part s' = utxo_part s \<Longrightarrow>
     utxo_obj s' = utxo_obj s \<and> utxo_set s' = utxo_set s \<and> next_utxo s' = next_utxo s"
  by (simp add: utxo_part_def)

lemma step_spent:
  assumes "\<not> spent (utxo_obj s u)"
  shows "\<not> spent (utxo_obj (step oper s) u)"
proof (cases oper)
  case (CreateOutput ty amt n)
  with assms show ?thesis using create_utxo_spent [of ty amt n s u] by auto
next
  case (BuildTransaction ins outs f rbf)
  with assms show ?thesis by (simp add: create_transaction_spent)
next
  case (Broadcast t)
  with assms utxo_partD [OF step_utxo_part(1) [of t s]] show ?thesis by simp
next
  case AttackScan
  with assms utxo_partD [OF step_utxo_part(2) [of s]] show ?thesis by simp
next
  case MineBlock
  with assms utxo_partD [OF step_utxo_part(3) [of s]] show ?thesis by simp
qed

lemma step_registry:
  assumes "\<forall>v\<in>set (utxo_set s). \<not> spent (utxo_obj s v)"
  shows "\<forall>v\<in>set (utxo_set (step oper s)). \<not> spent (utxo_obj (step oper s) v)"
proof (cases oper)
  case (CreateOutput ty amt n)
  with assms show ?thesis by (auto simp: create_utxo_def Let_def split: prod.splits)
next
  case (BuildTransaction ins outs f rbf)
  with assms show ?thesis by (simp add: create_transaction_spent create_transaction_frame)
next
  case (Broadcast t)
  with assms utxo_partD [OF step_utxo_part(1) [of t s]] show ?thesis by simp
next
  case AttackScan
  with assms utxo_partD [OF step_utxo_part(2) [of s]] show ?thesis by simp
next
  case MineBlock
  with assms utxo_partD [OF step_utxo_part(3) [of s]] show ?thesis by simp
qed

lemma step_exposed:
  assumes "u < next_utxo s" and "pubkey_exposed (utxo_obj s u)"
  shows "u < next_utxo (step oper s) \<and> pubkey_exposed (utxo_obj (step oper s) u)"
proof (cases oper)
  case (CreateOutput ty amt n)
  with assms show ?thesis by (auto simp: create_utxo_def Let_def split: prod.splits)
next
  case (BuildTransaction ins outs f rbf)
  with assms show ?thesis by (simp add: create_transaction_exposure create_transaction_frame)
next
  case (Broadcast t)
  with assms utxo_partD [OF step_utxo_part(1) [of t s]] show ?thesis by simp
next
  case AttackScan
  with assms utxo_partD [OF step_utxo_part(2) [of s]] show ?thesis by simp
next
  case MineBlock
  with assms utxo_partD [OF step_utxo_part(3) [of s]] show ?thesis by simp
qed

lemma run_spent: "\<not> spent (utxo_obj s u) \<Longrightarrow> \<not> spent (utxo_obj (run ops s) u)"
  by (induction ops arbitrary: s) (simp_all add: step_spent)

lemma run_registry:
  "\<forall>v\<in>set (utxo_set s). \<not> spent (utxo_obj s v) \<Longrightarrow>
     \<forall>v\<in>set (utxo_set (run ops s)). \<not> spent (utxo_obj (run ops s) v)"
proof (induction ops arbitrary: s)
  case Nil
  then show ?case by simp
next
  case (Cons oper ops)
  from Cons.IH [OF step_registry [OF Cons.prems, of oper]] show ?case by simp
qed

lemma run_exposed:
  "u < next_utxo s \<Longrightarrow> pubkey_exposed (utxo_obj s u) \<Longrightarrow> pubkey_exposed (utxo_obj (run ops s) u)"
proof (induction ops arbitrary: s)
  case Nil
  then show ?case by simp
next
  case (Cons oper ops)
  from step_exposed [OF Cons.prems, of oper] Cons.IH show ?case by simp
qed

lemma create_reused_utxo_exposed:
  "pubkey_exposed (utxo_obj (snd (create_reused_utxo prior amt s)) (fst (create_reused_utxo prior amt s)))
   \<and> exposure_count (utxo_obj (snd (create_reused_utxo prior amt s)) (fst (create_reused_utxo prior amt s))) = 2
   \<and> fst (create_reused_utxo prior amt s) = next_utxo s"
  by (simp add: create_reused_utxo_def create_utxo_def Let_def split: prod.splits)

section \<open>The claims\<close>

text \<open>
  C9 (counterexample). The claim says of every attacker that the estimated attack time
  is strictly positive for every key count and increases with the key count. For the
  first attacker of the simulation (120 seconds per key) and a key count of 0 the
  estimate is 0. For an attacker whose quantum computer is given 0 seconds per key and a
  key count of 1 the estimate is 0. For an attacker whose quantum computer is given -1
  second per key the estimate for 1 key is higher than the estimate for 2 keys.
\<close>

theorem estimate_attack_time_counterexamples:
  "\<not> 0 < estimate_attack_time attacker1 0
   \<and> \<not> 0 < estimate_attack_time instant_attacker 1
   \<and> \<not> estimate_attack_time negative_attacker 1 \<le> estimate_attack_time negative_attacker 2"
  by (simp add: estimate_attack_time_def attacker1_def qc1_def instant_attacker_def
        negative_attacker_def)

text \<open>
  C9 (amended). \<open>estimate_attack_time\<close> returns the per-key break time times the key
  count times 0.7. When the per-key break time is not negative, the estimate is
  monotonically increasing in the key count: a lower key count never gives a higher
  estimate. When the per-key break time is positive, the estimate is strictly positive
  for every key count of at least 1.
\<close>

theorem estimate_attack_time_formula:
  "estimate_attack_time a n = key_derivation_time (quantum_computer a) * of_int n * 0.7
   \<and> (0 \<le> key_derivation_time (quantum_computer a) \<longrightarrow>
        (m \<le> n \<longrightarrow> estimate_attack_time a m \<le> estimate_attack_time a n))
   \<and> (0 < key_derivation_time (quantum_computer a) \<and> 1 \<le> n \<longrightarrow>
        0 < estimate_attack_time a n)"
proof -
  let ?b = "key_derivation_time (quantum_computer a)"
  have e: "\<And>j. estimate_attack_time a j = ?b * of_int j * 0.7"
    by (simp add: estimate_attack_time_def)
  have mono: "?b * of_int m * 0.7 \<le> ?b * of_int n * 0.7" if "0 \<le> ?b" and "m \<le> n"
  proof -
    from that(2) have "(of_int m :: real) \<le> of_int n" by simp
    from this that(1) have "?b * of_int m \<le> ?b * of_int n" by (rule mult_left_mono)
    then show ?thesis by (rule mult_right_mono) simp
  qed
  have pos: "0 < ?b * of_int n * 0.7" if "0 < ?b" and "1 \<le> n"
    using that by simp
  from mono pos show ?thesis by (simp only: e) blast
qed

theorem estimate_attack_time_formula_witness:
  "0 \<le> key_derivation_time (quantum_computer attacker1)
   \<and> 0 < key_derivation_time (quantum_computer attacker1)
   \<and> (1::int) \<le> 2 \<and> (1::int) \<le> 2
   \<and> estimate_attack_time attacker1 2 = 168
   \<and> estimate_attack_time attacker1 1 \<le> estimate_attack_time attacker1 2
   \<and> 0 < estimate_attack_time attacker1 2"
  using estimate_attack_time_formula [of attacker1 2 1]
  by (simp add: attacker1_def qc1_def)

text \<open>
  C2 (the code at the failing input). Carol's transaction is broadcast and the attacker
  that never fails scans the mempool. The attack succeeds: the transaction is marked
  ATTACKED and the id of the competing transaction is appended to its \<open>competing_txs\<close>.
  But \<open>_execute_quantum_attack\<close> builds no competing transaction and stores nothing in
  the mempool: the mempool is the same as before the scan, it has no entry under the
  competing id, and the conflict group of Carol's transaction has Carol's transaction as
  its only member.
\<close>

theorem attack_inserts_no_competing_transaction:
  "status (tx_obj carol_net3 0) = BROADCAST
   \<and> fst (quantum_attack_scan carol_net3) = None
   \<and> status (tx_obj carol_net4 0) = ATTACKED
   \<and> competing_txs (tx_obj carol_net4 0) = [''attack02QuantumPirate'']
   \<and> mempool carol_net4 = mempool carol_net3
   \<and> map fst (mempool carol_net4) = [''02'']
   \<and> map_of (mempool carol_net4) ''attack02QuantumPirate'' = None
   \<and> map snd (double_spend_groups carol_net4) = [[0]]"
  by code_simp

text \<open>
  C8 (the code at the failing input). Carol's transaction has a total input of 22 and a
  fee of 0.2; the attacker's success probability is 1. The attack succeeds with an
  attack fee of 2 and a value of 20 for the attacker, and the transaction goes from
  BROADCAST to ATTACKED. At the next block the transaction is alone in its conflict
  group, so it is CONFIRMED, not STOLEN, and the attacker's \<open>total_stolen\<close>,
  \<open>btc_balance\<close> and \<open>successful_attacks\<close> stay as they were.
\<close>

theorem carol_confirmed_not_stolen:
  "sum_input_amounts carol_net3 (inputs (tx_obj carol_net3 0)) = 22
   \<and> fee (tx_obj carol_net3 0) = 0.2
   \<and> success_probability (quantum_computer (attacker_obj carol_net3 0)) = 1
   \<and> status (tx_obj carol_net3 0) = BROADCAST
   \<and> fst (quantum_attack_scan carol_net3) = None
   \<and> status (tx_obj carol_net4 0) = ATTACKED
   \<and> map_option (map (\<lambda>d. (attack_fee d, detail_value d))) (attack_details (tx_obj carol_net4 0))
       = Some [(2, 20)]
   \<and> fst (mine_block carol_net4) = None
   \<and> status (tx_obj carol_net5 0) = CONFIRMED
   \<and> total_stolen (attacker_obj carol_net5 0) = total_stolen (attacker_obj carol_net3 0)
   \<and> btc_balance (attacker_obj carol_net5 0) = btc_balance (attacker_obj carol_net3 0)
   \<and> successful_attacks (attacker_obj carol_net5 0) = 0"
  by code_simp

text \<open>
  C3 (counterexample). The inputs total 1 BTC, the output is 5 BTC and the fee 1 BTC.
  \<open>create_transaction\<close> does not fail: it returns a transaction in status CREATED, and
  it has marked the input exposed and incremented its exposure counter.
\<close>

theorem create_transaction_overspend:
  "sum_input_amounts over_net1 [0] < 5.0 + 1.0
   \<and> \<not> pubkey_exposed (utxo_obj over_net1 0)
   \<and> fst (create_transaction [0] [\<lparr>TxOutput.address = ''1_recipient'', amount = 5.0\<rparr>] 1.0 False
            over_net1) = 0
   \<and> status (tx_obj over_net2 0) = CREATED
   \<and> pubkey_exposed (utxo_obj over_net2 0)
   \<and> exposure_count (utxo_obj over_net2 0) = 1"
  by code_simp

text \<open>
  C3 (amended). \<open>create_transaction\<close> makes no check of the funds and never fails:
  whatever the inputs, the outputs and the fee are, it returns a transaction in status
  CREATED with these inputs, outputs and fee, and every input is exposed afterwards.
\<close>

theorem create_transaction_no_funds_check:
  assumes "create_transaction ins outs f rbf s = (r, s')"
  shows "status (tx_obj s' r) = CREATED \<and> inputs (tx_obj s' r) = ins
         \<and> outputs (tx_obj s' r) = outs \<and> fee (tx_obj s' r) = f
         \<and> (\<forall>u\<in>set ins. pubkey_exposed (utxo_obj s' u))"
  using assms
  by (auto simp: create_transaction_def Let_def split: prod.splits
           dest!: expose_and_sign_exposes_all)

theorem create_transaction_no_funds_check_witness:
  "create_transaction [0] [\<lparr>TxOutput.address = ''1_recipient'', amount = 5.0\<rparr>] 1.0 False over_net1
     = (0, over_net2)
   \<and> (0::nat) \<in> set [0]
   \<and> status (tx_obj over_net2 0) = CREATED \<and> fee (tx_obj over_net2 0) = 1
   \<and> pubkey_exposed (utxo_obj over_net2 0)"
proof -
  have f: "fst (create_transaction [0] [\<lparr>TxOutput.address = ''1_recipient'', amount = 5.0\<rparr>]
                  1.0 False over_net1) = 0"
    by code_simp
  have h: "create_transaction [0] [\<lparr>TxOutput.address = ''1_recipient'', amount = 5.0\<rparr>]
             1.0 False over_net1 = (0, over_net2)"
    using f by (simp add: over_net2_def prod_eq_iff)
  from create_transaction_no_funds_check [OF h] h show ?thesis by simp
qed

text \<open>
  C4. Let \<open>attack_time\<close> be the estimated attack time, \<open>remaining\<close> the time left before
  the next block and \<open>draw\<close> the random number, as \<open>_execute_quantum_attack\<close> computes
  them. If the call turns a transaction that was not ATTACKED into an ATTACKED one, then
  \<open>attack_time \<le> remaining\<close> and \<open>draw \<le> success_probability\<close>. If one of the two
  conditions fails, the call returns, the attacker's \<open>failed_attacks\<close> is incremented
  by 1 and no transaction is changed (so the status stays what it was).
\<close>

theorem attack_succeeds_only_in_time_and_by_draw:
  fixes s :: world and a t :: nat
  defines "attack_time \<equiv>
             estimate_attack_time (attacker_obj s a) (int (length (pubkeys_exposed (tx_obj s t))))"
    and "remaining \<equiv>
           block_time_avg s - (time_source s (time_calls s) - broadcast_time (tx_obj s t))"
    and "draw \<equiv> random_source s (random_calls s)"
    and "p \<equiv> success_probability (quantum_computer (attacker_obj s a))"
    and "s' \<equiv> snd (execute_quantum_attack a t s)"
  shows "(status (tx_obj s' t) = ATTACKED \<and> status (tx_obj s t) \<noteq> ATTACKED \<longrightarrow>
           attack_time \<le> remaining \<and> draw \<le> p)
         \<and> (attack_time > remaining \<or> draw > p \<longrightarrow>
              fst (execute_quantum_attack a t s) = None
              \<and> failed_attacks (attacker_obj s' a) = failed_attacks (attacker_obj s a) + 1
              \<and> tx_obj s' = tx_obj s)"
  unfolding assms
  by (simp add: execute_quantum_attack_def Let_def record_failed_attack_def)

theorem attack_succeeds_only_in_time_and_by_draw_witness:
  "status (tx_obj (snd (execute_quantum_attack 0 0 carol_net3)) 0) = ATTACKED
   \<and> status (tx_obj carol_net3 0) = BROADCAST
   \<and> estimate_attack_time (attacker_obj carol_net3 0)
        (int (length (pubkeys_exposed (tx_obj carol_net3 0)))) = 84
   \<and> block_time_avg carol_net3
        - (time_source carol_net3 (time_calls carol_net3) - broadcast_time (tx_obj carol_net3 0)) = 590
   \<and> random_source carol_net3 (random_calls carol_net3)
        \<le> success_probability (quantum_computer (attacker_obj carol_net3 0))
   \<and> estimate_attack_time (attacker_obj slow_net3 0)
        (int (length (pubkeys_exposed (tx_obj slow_net3 0)))) = 700
   \<and> block_time_avg slow_net3
        - (time_source slow_net3 (time_calls slow_net3) - broadcast_time (tx_obj slow_net3 0)) = 590
   \<and> failed_attacks (attacker_obj slow_net3 0) = 0
   \<and> failed_attacks (attacker_obj (snd (execute_quantum_attack 0 0 slow_net3)) 0) = 1
   \<and> status (tx_obj (snd (execute_quantum_attack 0 0 slow_net3)) 0) = BROADCAST"
proof -
  have c1: "status (tx_obj (snd (execute_quantum_attack 0 0 carol_net3)) 0) = ATTACKED"
    by code_simp
  have c2: "status (tx_obj carol_net3 0) = BROADCAST"
    by code_simp
  have c3: "estimate_attack_time (attacker_obj carol_net3 0)
              (int (length (pubkeys_exposed (tx_obj carol_net3 0)))) = 84"
    by code_simp
  have c4: "block_time_avg carol_net3
              - (time_source carol_net3 (time_calls carol_net3) - broadcast_time (tx_obj carol_net3 0))
            = 590"
    by code_simp
  have s1: "estimate_attack_time (attacker_obj slow_net3 0)
              (int (length (pubkeys_exposed (tx_obj slow_net3 0)))) = 700"
    by code_simp
  have s2: "block_time_avg slow_net3
              - (time_source slow_net3 (time_calls slow_net3) - broadcast_time (tx_obj slow_net3 0))
            = 590"
    by code_simp
  have s3: "failed_attacks (attacker_obj slow_net3 0) = 0"
    by code_simp
  have s4: "status (tx_obj slow_net3 0) = BROADCAST"
    by code_simp
  from attack_succeeds_only_in_time_and_by_draw [where s = carol_net3 and a = 0 and t = 0]
       c1 c2 c3 c4
       attack_succeeds_only_in_time_and_by_draw [where s = slow_net3 and a = 0 and t = 0]
       s1 s2 s3 s4
  show ?thesis by simp
qed

text \<open>
  C6 (counterexample). The random generator returns the same number at every call, so
  the second transaction built from Carol's output has the id of the first one, which is
  in the mempool. The second transaction is in status CREATED. Broadcasting it is not
  rejected: the call returns, the transaction is BROADCAST, and the mempool holds it
  under the id in place of the first transaction.
\<close>

theorem broadcast_transaction_duplicate_id:
  "status (tx_obj dup_net4 1) = CREATED
   \<and> Transaction.txid (tx_obj dup_net4 1) = ''5050''
   \<and> Transaction.txid (tx_obj dup_net4 0) = ''5050''
   \<and> mempool dup_net4 = [(''5050'', 0)]
   \<and> fst (broadcast_transaction 1 dup_net4) = None
   \<and> status (tx_obj dup_net5 1) = BROADCAST
   \<and> mempool dup_net5 = [(''5050'', 1)]"
  by code_simp

text \<open>
  C6 (amended). For a transaction in status CREATED whose inputs have a non-zero total,
  \<open>broadcast_transaction\<close> returns, sets the status of the transaction to BROADCAST and
  stores the transaction in the mempool under its id, the entries under the other ids
  staying as they are. A transaction whose id is already in the mempool is not rejected:
  it replaces the entry under that id, and the ids of the mempool stay the same.
\<close>

theorem broadcast_transaction_admits:
  assumes "status (tx_obj s t) = CREATED"
    and "sum_input_amounts s (inputs (tx_obj s t)) \<noteq> 0"
  shows "fst (broadcast_transaction t s) = None
         \<and> status (tx_obj (snd (broadcast_transaction t s)) t) = BROADCAST
         \<and> map_of (mempool (snd (broadcast_transaction t s))) (Transaction.txid (tx_obj s t)) = Some t
         \<and> (k \<noteq> Transaction.txid (tx_obj s t) \<longrightarrow>
              map_of (mempool (snd (broadcast_transaction t s))) k = map_of (mempool s) k)
         \<and> (Transaction.txid (tx_obj s t) \<in> set (map fst (mempool s)) \<longrightarrow>
              map fst (mempool (snd (broadcast_transaction t s))) = map fst (mempool s))"
  using assms(2)
  by (simp add: broadcast_transaction_def Let_def update_conv' update_keys)

theorem broadcast_transaction_admits_witness:
  "status (tx_obj dup_net4 1) = CREATED
   \<and> sum_input_amounts dup_net4 (inputs (tx_obj dup_net4 1)) \<noteq> 0
   \<and> ''02'' \<noteq> Transaction.txid (tx_obj dup_net4 1)
   \<and> Transaction.txid (tx_obj dup_net4 1) \<in> set (map fst (mempool dup_net4))
   \<and> map_of (mempool dup_net4) ''5050'' = Some 0
   \<and> fst (broadcast_transaction 1 dup_net4) = None
   \<and> status (tx_obj dup_net5 1) = BROADCAST
   \<and> map_of (mempool dup_net5) ''5050'' = Some 1
   \<and> map_of (mempool dup_net5) ''02'' = map_of (mempool dup_net4) ''02''
   \<and> map fst (mempool dup_net5) = map fst (mempool dup_net4)"
proof -
  have c: "status (tx_obj dup_net4 1) = CREATED"
    by code_simp
  have n: "sum_input_amounts dup_net4 (inputs (tx_obj dup_net4 1)) = 22"
    by code_simp
  have i: "Transaction.txid (tx_obj dup_net4 1) = ''5050''"
    by code_simp
  have m: "mempool dup_net4 = [(''5050'', 0)]"
    by code_simp
  from n have n': "sum_input_amounts dup_net4 (inputs (tx_obj dup_net4 1)) \<noteq> 0"
    by simp
  from broadcast_transaction_admits [OF c n', of "''02''"] c n i m
  show ?thesis by (simp add: dup_net5_def)
qed



text \<open>
  C5. If an operation turns the status of a transaction into STOLEN, then the operation
  is \<open>mine_block\<close>, the transaction was ATTACKED before it and was in the mempool, its
  conflict group (the transactions of the mempool with the same sorted input ids) had
  more than one member, and no member of the group had a higher fee.
\<close>

theorem stolen_only_from_attacked_winner:
  assumes "status (tx_obj (step oper s) x) = STOLEN" and "status (tx_obj s x) \<noteq> STOLEN"
  shows "oper = MineBlock \<and> status (tx_obj s x) = ATTACKED \<and> x \<in> set (map snd (mempool s))
         \<and> 1 < length (filter (\<lambda>y. input_key s y = input_key s x) (map snd (mempool s)))
         \<and> (\<forall>y\<in>set (map snd (mempool s)). input_key s y = input_key s x \<longrightarrow>
               fee (tx_obj s y) \<le> fee (tx_obj s x))"
proof (cases oper)
  case (CreateOutput ty amt n)
  with assms show ?thesis by (simp add: create_utxo_def Let_def split: prod.splits)
next
  case (BuildTransaction ins outs f rbf)
  with assms create_transaction_status [of ins outs f rbf s x] show ?thesis by simp
next
  case (Broadcast t)
  with assms show ?thesis by (simp add: broadcast_transaction_def Let_def split: if_splits)
next
  case AttackScan
  with assms quantum_attack_scan_status [of s x] show ?thesis by simp
next
  case MineBlock
  with assms mine_block_stolen [of s x] show ?thesis by simp
qed

theorem stolen_only_from_attacked_winner_witness:
  "status (tx_obj (step MineBlock double_net5) 0) = STOLEN
   \<and> status (tx_obj double_net5 0) = ATTACKED
   \<and> map snd (mempool double_net5) = [0, 1]
   \<and> input_key double_net5 1 = input_key double_net5 0
   \<and> fee (tx_obj double_net5 1) \<le> fee (tx_obj double_net5 0)
   \<and> 1 < length (filter (\<lambda>y. input_key double_net5 y = input_key double_net5 0)
                   (map snd (mempool double_net5)))"
proof -
  have h1: "status (tx_obj (step MineBlock double_net5) 0) = STOLEN"
    by code_simp
  have h2: "status (tx_obj double_net5 0) = ATTACKED"
    by code_simp
  have h3: "map snd (mempool double_net5) = [0, 1]"
    by code_simp
  have h4: "input_key double_net5 1 = input_key double_net5 0"
    by code_simp
  from h2 have h2': "status (tx_obj double_net5 0) \<noteq> STOLEN" by simp
  from stolen_only_from_attacked_winner [OF h1 h2'] h1 h2 h3 h4
  show ?thesis by simp
qed

text \<open>
  C7. \<open>create_transaction\<close> leaves a UTXO exposed exactly when it was exposed before or
  is one of the inputs, and it increments the exposure counter by 1 exactly for the
  inputs that were not exposed before (once, also for an input that occurs twice). No
  sequence of operations resets the flag of an existing UTXO. The address-reuse fragment
  of the simulation builds a UTXO that is exposed with an exposure counter of 2, and
  \<open>create_transaction\<close> leaves that counter at 2.
\<close>

theorem exposure_is_monotonic:
  "pubkey_exposed (utxo_obj (snd (create_transaction ins outs f rbf s)) u)
     = (pubkey_exposed (utxo_obj s u) \<or> u \<in> set ins)
   \<and> exposure_count (utxo_obj (snd (create_transaction ins outs f rbf s)) u)
       = exposure_count (utxo_obj s u)
           + (if \<not> pubkey_exposed (utxo_obj s u) \<and> u \<in> set ins then 1 else 0)
   \<and> (u < next_utxo s \<and> pubkey_exposed (utxo_obj s u) \<longrightarrow>
         pubkey_exposed (utxo_obj (run ops s) u))
   \<and> pubkey_exposed (utxo_obj (snd (create_reused_utxo prior amt s))
                                (fst (create_reused_utxo prior amt s)))
   \<and> exposure_count (utxo_obj (snd (create_reused_utxo prior amt s))
                                (fst (create_reused_utxo prior amt s))) = 2
   \<and> exposure_count
        (utxo_obj (snd (create_transaction ins outs f rbf (snd (create_reused_utxo prior amt s))))
                  (fst (create_reused_utxo prior amt s))) = 2"
proof -
  let ?r = "fst (create_reused_utxo prior amt s)" and ?s1 = "snd (create_reused_utxo prior amt s)"
  note a = create_transaction_exposure [of ins outs f rbf s u]
  have b: "u < next_utxo s \<and> pubkey_exposed (utxo_obj s u) \<longrightarrow>
             pubkey_exposed (utxo_obj (run ops s) u)"
    using run_exposed [of u s ops] by blast
  from create_reused_utxo_exposed [of prior amt s]
  have c: "pubkey_exposed (utxo_obj ?s1 ?r)" and d: "exposure_count (utxo_obj ?s1 ?r) = 2"
    by blast+
  from create_transaction_exposure [of ins outs f rbf ?s1 ?r] c d
  have e: "exposure_count (utxo_obj (snd (create_transaction ins outs f rbf ?s1)) ?r) = 2"
    by simp
  from a b c d e show ?thesis by blast
qed

theorem exposure_is_monotonic_witness:
  "\<not> pubkey_exposed (utxo_obj carol_net1 0)
   \<and> exposure_count (utxo_obj carol_net1 0) = 0
   \<and> pubkey_exposed (utxo_obj carol_net2 0)
   \<and> exposure_count (utxo_obj carol_net2 0) = 1
   \<and> 0 < next_utxo carol_net2
   \<and> pubkey_exposed (utxo_obj (run (tl carol_operations) carol_net2) 0)
   \<and> fst (create_reused_utxo 0 10.0 carol_net5) = 1
   \<and> pubkey_exposed (utxo_obj reuse_net6 1)
   \<and> exposure_count (utxo_obj reuse_net6 1) = 2
   \<and> exposure_count (utxo_obj reuse_net7 1) = 2"
proof -
  have a: "\<not> pubkey_exposed (utxo_obj carol_net1 0)"
    by code_simp
  have b: "exposure_count (utxo_obj carol_net1 0) = 0"
    by code_simp
  have c: "0 < next_utxo carol_net2"
    by code_simp
  have d: "fst (create_reused_utxo 0 10.0 carol_net5) = 1"
    by code_simp
  note t1 = exposure_is_monotonic
    [of "[0]" "[\<lparr>TxOutput.address = ''bc1p_carol_recipient_taproot'', amount = 21.8\<rparr>]" "0.2" False
        carol_net1 0 "[]" 0 "10.0"]
  from t1 a b have e: "pubkey_exposed (utxo_obj carol_net2 0) \<and> exposure_count (utxo_obj carol_net2 0) = 1"
    by (simp add: carol_net2_def)
  note t2 = exposure_is_monotonic
    [of "[1]" "[\<lparr>TxOutput.address = ''1_alice_new_recipient'', amount = 9.9\<rparr>]" "0.1" False
        carol_net2 0 "tl carol_operations" 0 "10.0"]
  from t2 c e have g: "pubkey_exposed (utxo_obj (run (tl carol_operations) carol_net2) 0)"
    by simp
  note t3 = exposure_is_monotonic
    [of "[1]" "[\<lparr>TxOutput.address = ''1_alice_new_recipient'', amount = 9.9\<rparr>]" "0.1" False
        carol_net5 0 "[]" 0 "10.0"]
  from t3 d have h: "pubkey_exposed (utxo_obj reuse_net6 1) \<and> exposure_count (utxo_obj reuse_net6 1) = 2
      \<and> exposure_count (utxo_obj reuse_net7 1) = 2"
    by (simp add: reuse_net6_def reuse_net7_def)
  from a b c d e g h show ?thesis by simp
qed

text \<open>
  C10. No sequence of operations (creating outputs, building and broadcasting
  transactions, attack scans, mining) sets the \<open>spent\<close> field of a UTXO: a UTXO that is
  unspent stays unspent, and when all UTXOs of the registry are unspent (as in a new
  network, whose registry is empty) they all are after the operations. And
  \<open>create_transaction\<close> does not look at the field: whatever the inputs are, it returns
  a transaction in status CREATED with these inputs.
\<close>

theorem spent_is_never_set:
  "(\<not> spent (utxo_obj s u) \<longrightarrow> \<not> spent (utxo_obj (run ops s) u))
   \<and> ((\<forall>v\<in>set (utxo_set s). \<not> spent (utxo_obj s v)) \<longrightarrow>
        (\<forall>v\<in>set (utxo_set (run ops s)). \<not> spent (utxo_obj (run ops s) v)))
   \<and> utxo_set (init_network w) = []
   \<and> inputs (tx_obj (snd (create_transaction ins outs f rbf s))
                     (fst (create_transaction ins outs f rbf s))) = ins
   \<and> status (tx_obj (snd (create_transaction ins outs f rbf s))
                     (fst (create_transaction ins outs f rbf s))) = CREATED"
  using run_spent [of s u ops] run_registry [of s ops] create_transaction_result [of ins outs f rbf s]
  by (simp add: init_network_def)

theorem spent_is_never_set_witness:
  "\<not> spent (utxo_obj carol_net1 0)
   \<and> utxo_set carol_net1 = [0]
   \<and> utxo_set (run carol_operations carol_net1) = [0, 1]
   \<and> \<not> spent (utxo_obj (run carol_operations carol_net1) 0)
   \<and> \<not> spent (utxo_obj (run carol_operations carol_net1) 1)"
proof -
  have a: "\<not> spent (utxo_obj carol_net1 0)"
    by code_simp
  have b: "utxo_set carol_net1 = [0]"
    by code_simp
  have c: "utxo_set (run carol_operations carol_net1) = [0, 1]"
    by code_simp
  from spent_is_never_set [of carol_net1 0 carol_operations outside_world "[]" "[]" 0 False] a b c
  show ?thesis by simp
qed

end
